theory Spec2Isabelle
  imports Complex_Main
begin

section \<open>JavaScript values, exceptions and string conversion\<close>

text \<open>
  The verification service is declared on a string, but the two Express routes hand it
  \<^verbatim>\<open>req.body\<close>, whatever the JSON body parser produced. TypeScript types are erased
  at run time, so the service is modelled on JavaScript values. A number is carried as
  the text that its conversion to a string gives; the body parser never yields a
  function, so no member of an object is callable.
\<close>

datatype exn = TypeError string | RangeError string | Error string

datatype jsval =
    JUndefined
  | JNull
  | JBool bool
  | JNum string
  | JStr string
  | JArr "jsval list"
  | JObj "(string \<times> jsval) list"

text \<open>
  \<^verbatim>\<open>String(b)\<close> on a boolean, as in \<^verbatim>\<open>String(isVerified)\<close>.
\<close>

definition js_String_bool :: "bool \<Rightarrow> string" where
  "js_String_bool b = (if b then ''true'' else ''false'')"

text \<open>
  The conversion a template literal \<^verbatim>\<open>`...${v}...`\<close> applies to \<open>v\<close>. A plain object
  answers \<^verbatim>\<open>[object Object]\<close> through the inherited \<^verbatim>\<open>toString\<close>; an own member
  named \<^verbatim>\<open>toString\<close> (not callable, coming from JSON) hides the inherited one, the
  inherited \<^verbatim>\<open>valueOf\<close> returns the object itself, and the conversion throws a
  TypeError. An array joins the conversions of its elements with commas, the elements
  \<^verbatim>\<open>null\<close> and \<^verbatim>\<open>undefined\<close> giving the empty string. The join calls itself on an
  element that is an array, so arrays nested deeper than the call stack allows end in a
  RangeError; the first argument is the number of levels the stack still allows, a
  property of the engine.
\<close>

fun js_toString :: "nat \<Rightarrow> jsval \<Rightarrow> exn + string"
  and js_join :: "nat \<Rightarrow> jsval list \<Rightarrow> exn + string" where
  "js_toString d JUndefined = Inr ''undefined''"
| "js_toString d JNull = Inr ''null''"
| "js_toString d (JBool b) = Inr (js_String_bool b)"
| "js_toString d (JNum s) = Inr s"
| "js_toString d (JStr s) = Inr s"
| "js_toString d (JArr xs) =
     (if d = 0 then Inl (RangeError ''Maximum call stack size exceeded'')
      else js_join (d - 1) xs)"
| "js_toString d (JObj fs) =
     (if ''toString'' \<in> set (map fst fs)
      then Inl (TypeError ''Cannot convert object to primitive value'')
      else Inr ''[object Object]'')"
| "js_join d [] = Inr []"
| "js_join d (x # xs) =
     (case (if x = JUndefined \<or> x = JNull then Inr [] else js_toString d x) of
        Inl e \<Rightarrow> Inl e
      | Inr s \<Rightarrow>
          if xs = [] then Inr s
          else (case js_join d xs of Inl e \<Rightarrow> Inl e | Inr t \<Rightarrow> Inr (s @ '','' @ t)))"

section \<open>The world outside the service\<close>

text \<open>
  Everything the code does besides returning a value is an event of the trace, in the
  order of the calls: the log lines, the two Redis commands, the draw of
  \<^verbatim>\<open>Math.random()\<close> (the mocked external verification) and the call of the
  notification sink.
\<close>

datatype event =
    LogInfo string
  | LogWarn string
  | LogError string
  | ConsoleError exn
  | RedisGet string
  | RedisSet string string nat
  | MathRandom
  | Notification string string

text \<open>
  The cache maps a key to its value and the second at which the entry expires; \<open>now\<close>
  is the current second; \<open>stack_depth\<close> is the number of levels of array nesting that
  the call stack of the process lets a string conversion descend.
\<close>

record world =
  cache :: "string \<rightharpoonup> string \<times> nat"
  now :: nat
  trace :: "event list"
  stack_depth :: nat

text \<open>
  What the collaborators do during one call of the service or one job: whether the Redis
  commands throw, the number \<^verbatim>\<open>Math.random()\<close> returns, and whether the notification
  sink throws.
\<close>

record env =
  redis_get_throws :: "exn option"
  redis_set_throws :: "exn option"
  random_draw :: real
  notify_throws :: "exn option"

record verification_result =
  success :: bool
  message :: "string option"

definition emit :: "event \<Rightarrow> world \<Rightarrow> world" where
  "emit e w = w\<lparr>trace := trace w @ [e]\<rparr>"

definition events_since :: "world \<Rightarrow> world \<Rightarrow> event list" where
  "events_since w w' = drop (length (trace w)) (trace w')"

definition advance :: "nat \<Rightarrow> world \<Rightarrow> world" where
  "advance d w = w\<lparr>now := now w + d\<rparr>"

text \<open>
  Modelled from the spec: \<^verbatim>\<open>utils/logger\<close> is not among the sources. A log call
  records its line and returns.
\<close>

definition logger_info :: "string \<Rightarrow> world \<Rightarrow> world" where
  "logger_info line w = emit (LogInfo line) w"

definition logger_warn :: "string \<Rightarrow> world \<Rightarrow> world" where
  "logger_warn line w = emit (LogWarn line) w"

definition logger_error :: "string \<Rightarrow> world \<Rightarrow> world" where
  "logger_error line w = emit (LogError line) w"

text \<open>
  Modelled from the spec: the Redis client (\<^verbatim>\<open>ioredis\<close>) is a library. \<open>get\<close> returns
  the value of an entry that is present and unexpired and \<^verbatim>\<open>null\<close> otherwise; \<open>set\<close>
  with \<^verbatim>\<open>'EX', ttl\<close> overwrites the entry, its expiry clock starting at the write. Either
  command may throw instead (the cache is unreachable), and then changes nothing.
\<close>

definition redis_lookup :: "world \<Rightarrow> string \<Rightarrow> string option" where
  "redis_lookup w key =
     (case cache w key of
        None \<Rightarrow> None
      | Some (v, expiry) \<Rightarrow> if now w < expiry then Some v else None)"

definition redis_get :: "env \<Rightarrow> string \<Rightarrow> world \<Rightarrow> (exn + string option) \<times> world" where
  "redis_get env key w =
     (case redis_get_throws env of
        Some e \<Rightarrow> (Inl e, emit (RedisGet key) w)
      | None \<Rightarrow> (Inr (redis_lookup w key), emit (RedisGet key) w))"

definition redis_set :: "env \<Rightarrow> string \<Rightarrow> string \<Rightarrow> nat \<Rightarrow> world \<Rightarrow> (exn + unit) \<times> world" where
  "redis_set env key v ttl w =
     (case redis_set_throws env of
        Some e \<Rightarrow> (Inl e, emit (RedisSet key v ttl) w)
      | None \<Rightarrow>
          (Inr (), (emit (RedisSet key v ttl) w)\<lparr>cache := (cache w)(key \<mapsto> (v, now w + ttl))\<rparr>))"

text \<open>
  \<^verbatim>\<open>if (cachedResult)\<close> on a value of type \<^verbatim>\<open>string | null\<close>: \<^verbatim>\<open>null\<close> and the
  empty string are falsy.
\<close>

definition truthy :: "string option \<Rightarrow> bool" where
  "truthy c = (case c of None \<Rightarrow> False | Some v \<Rightarrow> v \<noteq> [])"

section \<open>The verification service\<close>

text \<open>
  The body of the \<^verbatim>\<open>try\<close> block of \<^verbatim>\<open>verifyMerchant\<close>. \<open>Inl\<close> is a thrown
  exception. Each template literal converts \<open>merchantId\<close> to a string; the first one is
  the log line that opens the block.
\<close>

definition verifyMerchant_try ::
  "env \<Rightarrow> jsval \<Rightarrow> world \<Rightarrow> (exn + verification_result) \<times> world" where
  "verifyMerchant_try env merchantId w =
     (case js_toString (stack_depth w) merchantId of
        Inl e \<Rightarrow> (Inl e, w)
      | Inr m \<Rightarrow>
          (let w1 = logger_info (''Starting verification for merchant: '' @ m) w in
           case redis_get env (''merchant_verification:'' @ m) w1 of
             (Inl e, w2) \<Rightarrow> (Inl e, w2)
           | (Inr cachedResult, w2) \<Rightarrow>
               if truthy cachedResult then
                 (Inr \<lparr>success = (cachedResult = Some ''true''), message = None\<rparr>,
                  logger_info (''Found cached verification result for merchant '' @ m) w2)
               else
                 (let w3 = emit MathRandom w2;
                      isVerified = (random_draw env > 3 / 10);
                      w4 = logger_info
                             (''Verification result for '' @ m @ '': '' @ js_String_bool isVerified) w3
                  in case redis_set env (''merchant_verification:'' @ m)
                            (js_String_bool isVerified) 3600 w4 of
                       (Inl e, w5) \<Rightarrow> (Inl e, w5)
                     | (Inr u, w5) \<Rightarrow>
                         (Inr \<lparr>success = isVerified,
                               message = Some (if isVerified then ''Verified successfully''
                                               else ''Verification failed'')\<rparr>,
                          w5))))"

text \<open>
  \<^verbatim>\<open>verifyMerchant\<close>: the \<^verbatim>\<open>try\<close> block and its \<^verbatim>\<open>catch\<close>, which logs a line
  (another template literal over \<open>merchantId\<close>) and returns a failure result. The value is
  the settled promise: \<open>Inr\<close> fulfilled, \<open>Inl\<close> rejected.
\<close>

definition verifyMerchant ::
  "env \<Rightarrow> jsval \<Rightarrow> world \<Rightarrow> (exn + verification_result) \<times> world" where
  "verifyMerchant env merchantId w =
     (case verifyMerchant_try env merchantId w of
        (Inr result, w') \<Rightarrow> (Inr result, w')
      | (Inl error, w') \<Rightarrow>
          (case js_toString (stack_depth w) merchantId of
             Inl e \<Rightarrow> (Inl e, w')
           | Inr m \<Rightarrow>
               (Inr \<lparr>success = False, message = Some ''Internal error during verification''\<rparr>,
                logger_error (''Error verifying merchant '' @ m @ '':'') w')))"

section \<open>The worker\<close>

record VerificationJobData =
  merchantId :: string

record job =
  data :: VerificationJobData

text \<open>
  Modelled from the spec: \<^verbatim>\<open>services/notifications\<close> is not among the sources. The
  sink takes a merchant identifier and a message; the call is recorded, and it returns or
  throws.
\<close>

definition sendNotification :: "env \<Rightarrow> string \<Rightarrow> string \<Rightarrow> world \<Rightarrow> (exn + unit) \<times> world" where
  "sendNotification env m msg w =
     (case notify_throws env of
        Some e \<Rightarrow> (Inl e, emit (Notification m msg) w)
      | None \<Rightarrow> (Inr (), emit (Notification m msg) w))"

fun is_Notification :: "event \<Rightarrow> bool" where
  "is_Notification (Notification m msg) = True"
| "is_Notification e = False"

text \<open>
  The processor function given to the BullMQ \<^verbatim>\<open>Worker\<close>: its \<^verbatim>\<open>try\<close> block, then
  the \<^verbatim>\<open>catch\<close> that logs and throws the same exception again. The job payload is
  taken at its declared type, \<^verbatim>\<open>{ merchantId: string }\<close>.
\<close>

definition processor_try :: "env \<Rightarrow> job \<Rightarrow> world \<Rightarrow> (exn + verification_result) \<times> world" where
  "processor_try env j w =
     (let m = merchantId (data j);
          w1 = logger_info (''Processing verification for merchant: '' @ m) w
      in case verifyMerchant env (JStr m) w1 of
           (Inl e, w2) \<Rightarrow> (Inl e, w2)
         | (Inr result, w2) \<Rightarrow>
             if success result then
               (case sendNotification env m ''Verification successful!'' w2 of
                  (Inl e, w3) \<Rightarrow> (Inl e, w3)
                | (Inr u, w3) \<Rightarrow>
                    (Inr result, logger_info (''Merchant '' @ m @ '' verified successfully.'') w3))
             else
               (case sendNotification env m ''Verification failed!'' w2 of
                  (Inl e, w3) \<Rightarrow> (Inl e, w3)
                | (Inr u, w3) \<Rightarrow>
                    (Inr result, logger_warn (''Merchant '' @ m @ '' verification failed.'') w3)))"

definition processor :: "env \<Rightarrow> job \<Rightarrow> world \<Rightarrow> (exn + verification_result) \<times> world" where
  "processor env j w =
     (case processor_try env j w of
        (Inr result, w') \<Rightarrow> (Inr result, w')
      | (Inl error, w') \<Rightarrow>
          (Inl error, logger_error (''Error processing merchant '' @ merchantId (data j) @ '':'') w'))"

text \<open>
  Modelled from the spec: BullMQ is a library. A job whose processor returns is completed;
  one whose processor throws is failed and handed to the queue's retry machinery. The
  worker then runs the listener of the matching event, which logs a line.
\<close>

datatype job_state = Completed verification_result | Failed exn

definition externalVerificationWorker :: "env \<Rightarrow> job \<Rightarrow> world \<Rightarrow> job_state \<times> world" where
  "externalVerificationWorker env j w =
     (case processor env j w of
        (Inr result, w') \<Rightarrow>
          (Completed result, logger_info (''Job '' @ merchantId (data j) @ '' completed'') w')
      | (Inl err, w') \<Rightarrow>
          (Failed err, logger_error (''Job for merchant '' @ merchantId (data j) @ '' failed:'') w'))"

section \<open>The routes\<close>

record request =
  body :: jsval

datatype payload = Json jsval | Text string

record response =
  status :: nat
  sent :: payload

text \<open>
  The verification result as \<^verbatim>\<open>res.json\<close> serialises it: the member \<^verbatim>\<open>message\<close> is
  left out when it is undefined.
\<close>

definition result_json :: "verification_result \<Rightarrow> jsval" where
  "result_json r =
     JObj ((''success'', JBool (success r)) #
           (case message r of None \<Rightarrow> [] | Some msg \<Rightarrow> [(''message'', JStr msg)]))"

text \<open>
  \<^verbatim>\<open>POST /merchant/submit\<close>. \<^verbatim>\<open>res.json\<close> without a status answers 200.
\<close>

definition merchant_submit :: "env \<Rightarrow> request \<Rightarrow> world \<Rightarrow> response \<times> world" where
  "merchant_submit env req w =
     (case verifyMerchant env (body req) w of
        (Inr result, w') \<Rightarrow>
          (\<lparr>status = 200,
            sent = Json (JObj [(''success'', JBool True), (''data'', result_json result)])\<rparr>, w')
      | (Inl err, w') \<Rightarrow>
          (\<lparr>status = 500,
            sent = Json (JObj [(''success'', JBool False), (''message'', JStr ''Server Error'')])\<rparr>,
           emit (ConsoleError err) w'))"

text \<open>
  \<^verbatim>\<open>POST /webhook/external-verification\<close>.
\<close>

definition webhook_external_verification :: "env \<Rightarrow> request \<Rightarrow> world \<Rightarrow> response \<times> world" where
  "webhook_external_verification env req w =
     (case verifyMerchant env (body req) w of
        (Inr result, w') \<Rightarrow> (\<lparr>status = 200, sent = Text ''OK''\<rparr>, w')
      | (Inl err, w') \<Rightarrow>
          (\<lparr>status = 500, sent = Text ''Webhook processing failed''\<rparr>,
           emit (ConsoleError err) w'))"

section \<open>Concrete inputs\<close>

definition fresh_world :: world where
  "fresh_world = \<lparr>cache = Map.empty, now = 0, trace = [], stack_depth = 1000\<rparr>"

definition env_up :: "real \<Rightarrow> env" where
  "env_up r = \<lparr>redis_get_throws = None, redis_set_throws = None, random_draw = r,
              notify_throws = None\<rparr>"

definition env_get_down :: env where
  "env_get_down = \<lparr>redis_get_throws = Some (Error ''ECONNREFUSED''), redis_set_throws = None,
                   random_draw = 1 / 2, notify_throws = None\<rparr>"

definition env_set_down :: env where
  "env_set_down = \<lparr>redis_get_throws = None, redis_set_throws = Some (Error ''ECONNREFUSED''),
                   random_draw = 1 / 2, notify_throws = None\<rparr>"

definition env_notify_down :: env where
  "env_notify_down = \<lparr>redis_get_throws = None, redis_set_throws = None, random_draw = 1 / 2,
                      notify_throws = Some (Error ''push service unavailable'')\<rparr>"

definition job_M001 :: job where
  "job_M001 = \<lparr>data = \<lparr>merchantId = ''M-001''\<rparr>\<rparr>"

text \<open>
  A cache that already holds a negative verdict for the merchant \<^verbatim>\<open>M-002\<close>.
\<close>

definition seeded_world :: world where
  "seeded_world = \<lparr>cache = [''merchant_verification:M-002'' \<mapsto> (''false'', 3600)], now = 0,
                    trace = [], stack_depth = 1000\<rparr>"

definition job_M002 :: job where
  "job_M002 = \<lparr>data = \<lparr>merchantId = ''M-002''\<rparr>\<rparr>"

text \<open>
  The body the repository's own test script posts to the submission endpoint.
\<close>

definition test_body :: jsval where
  "test_body = JObj [(''merchantId'', JStr ''M12345''), (''name'', JStr ''Test Merchant''),
                     (''email'', JStr ''test@example.com'')]"

text \<open>
  An empty array inside \<open>n\<close> further arrays: \<^verbatim>\<open>[]\<close>, \<^verbatim>\<open>[[]]\<close>, \<^verbatim>\<open>[[[]]]\<close> and so on.
\<close>

fun nested :: "nat \<Rightarrow> jsval" where
  "nested 0 = JArr []"
| "nested (Suc n) = JArr [nested n]"

definition odd_body :: jsval where
  "odd_body = JObj [(''merchantId'', JStr ''M-001''), (''toString'', JStr ''x'')]"

section \<open>Frame lemmas\<close>

lemma emit_fields [simp]:
  "cache (emit e w) = cache w" "now (emit e w) = now w" "trace (emit e w) = trace w @ [e]"
  "stack_depth (emit e w) = stack_depth w"
  by (simp_all add: emit_def)

lemma redis_lookup_emit [simp]: "redis_lookup (emit e w) key = redis_lookup w key"
  by (simp add: redis_lookup_def split: option.split)

lemma redis_lookup_trace [simp]: "redis_lookup (w\<lparr>trace := t\<rparr>) key = redis_lookup w key"
  by (simp add: redis_lookup_def split: option.split)

lemma events_since_append [simp]: "events_since w (w'\<lparr>trace := trace w @ es\<rparr>) = es"
  by (simp add: events_since_def)

text \<open>
  Arrays nested as deep as the stack allows, or deeper, do not convert.
\<close>

lemma nested_not_null [simp]: "nested n \<noteq> JNull" "nested n \<noteq> JUndefined"
  by (cases n; simp)+

lemma js_toString_nested:
  "js_toString d (nested n)
     = (if n < d then Inr [] else Inl (RangeError ''Maximum call stack size exceeded''))"
proof (induction n arbitrary: d)
  case 0
  show ?case by simp
next
  case (Suc n)
  show ?case
  proof (cases d)
    case 0
    then show ?thesis by simp
  next
    case (Suc d')
    with Suc.IH [of d'] show ?thesis by simp
  qed
qed

lemma webhook_rejects_deep_array:
  "stack_depth w \<le> n \<Longrightarrow>
   fst (webhook_external_verification env \<lparr>body = nested n\<rparr> w)
     = \<lparr>status = 500, sent = Text ''Webhook processing failed''\<rparr>"
  by (simp add: webhook_external_verification_def verifyMerchant_def verifyMerchant_try_def
      js_toString_nested)

text \<open>
  The service only appends to the trace, and never calls the notification sink.
\<close>

lemma verifyMerchant_stack_depth:
  "stack_depth (snd (verifyMerchant env mid w)) = stack_depth w"
  by (auto simp add: verifyMerchant_def verifyMerchant_try_def redis_get_def redis_set_def
      logger_info_def logger_error_def Let_def split: sum.splits option.splits)

lemma verifyMerchant_trace:
  "\<exists>es. trace (snd (verifyMerchant env mid w)) = trace w @ es \<and> filter is_Notification es = []"
  by (auto simp add: verifyMerchant_def verifyMerchant_try_def redis_get_def redis_set_def
      logger_info_def logger_error_def Let_def split: sum.splits option.splits)

text \<open>
  Once the identifier converts to a string, no template literal throws, and the
  \<^verbatim>\<open>catch\<close> turns every exception of the \<^verbatim>\<open>try\<close> block into a result.
\<close>

lemma verifyMerchant_convertible_returns:
  "js_toString (stack_depth w) mid = Inr m \<Longrightarrow> \<exists>r. fst (verifyMerchant env mid w) = Inr r"
  by (auto simp add: verifyMerchant_def verifyMerchant_try_def redis_get_def redis_set_def
      Let_def split: sum.splits option.splits)

text \<open>
  A cache access that throws: the \<open>get\<close>, or the \<open>set\<close> on the miss path.
\<close>

lemma cache_failure_caught:
  assumes "js_toString (stack_depth w) mid = Inr m"
    and "redis_get_throws env = Some e
         \<or> (redis_get_throws env = None
            \<and> \<not> truthy (redis_lookup w (''merchant_verification:'' @ m))
            \<and> redis_set_throws env = Some e)"
  shows "fst (verifyMerchant env mid w)
           = Inr \<lparr>success = False, message = Some ''Internal error during verification''\<rparr>"
    and "cache (snd (verifyMerchant env mid w)) = cache w"
    and "\<exists>es. trace (snd (verifyMerchant env mid w)) = trace w @ es \<and> filter is_Notification es = []"
  using assms
  by (auto simp add: verifyMerchant_def verifyMerchant_try_def redis_get_def redis_set_def
      logger_info_def logger_error_def Let_def)

text \<open>
  The two paths of a call that the cache serves: the hit and the miss.
\<close>

lemma verifyMerchant_hit:
  assumes "js_toString (stack_depth w) mid = Inr m"
    and "redis_get_throws env = None"
    and "redis_lookup w (''merchant_verification:'' @ m) = Some v"
    and "v \<noteq> []"
  shows "verifyMerchant env mid w
           = (Inr \<lparr>success = (v = ''true''), message = None\<rparr>,
              w\<lparr>trace := trace w @
                   [LogInfo (''Starting verification for merchant: '' @ m),
                    RedisGet (''merchant_verification:'' @ m),
                    LogInfo (''Found cached verification result for merchant '' @ m)]\<rparr>)"
  using assms
  by (simp add: verifyMerchant_def verifyMerchant_try_def redis_get_def
      logger_info_def emit_def truthy_def Let_def)

lemma verifyMerchant_miss:
  assumes "js_toString (stack_depth w) mid = Inr m"
    and "redis_get_throws env = None"
    and "\<not> truthy (redis_lookup w (''merchant_verification:'' @ m))"
    and "redis_set_throws env = None"
  shows "verifyMerchant env mid w
           = (Inr \<lparr>success = (random_draw env > 3 / 10),
                   message = Some (if random_draw env > 3 / 10 then ''Verified successfully''
                                   else ''Verification failed'')\<rparr>,
              w\<lparr>trace := trace w @
                   [LogInfo (''Starting verification for merchant: '' @ m),
                    RedisGet (''merchant_verification:'' @ m),
                    MathRandom,
                    LogInfo (''Verification result for '' @ m @ '': ''
                             @ js_String_bool (random_draw env > 3 / 10)),
                    RedisSet (''merchant_verification:'' @ m)
                      (js_String_bool (random_draw env > 3 / 10)) 3600],
                cache := (cache w)(''merchant_verification:'' @ m
                           \<mapsto> (js_String_bool (random_draw env > 3 / 10), now w + 3600))\<rparr>)"
  using assms
  by (simp add: verifyMerchant_def verifyMerchant_try_def redis_get_def redis_set_def
      logger_info_def emit_def Let_def)

section \<open>Properties of the verification service\<close>

text \<open>
  C1. Two calls in succession, the second while the entry that the first call read (a
  truthy value) or wrote is still unexpired, the cache answering the reads: the second
  call returns the success outcome of the first, and all it does is log, read the cache
  and log the hit. It draws no random number and leaves the cache as it is.
\<close>

theorem verifyMerchant_idempotent_within_ttl:
  assumes conv: "js_toString (stack_depth w) mid = Inr m"
    and get1: "redis_get_throws env1 = None"
    and first: "truthy (redis_lookup w (''merchant_verification:'' @ m)) \<or> redis_set_throws env1 = None"
    and call1: "verifyMerchant env1 mid w = (out1, w1)"
    and live: "redis_lookup (advance d w1) (''merchant_verification:'' @ m) \<noteq> None"
    and get2: "redis_get_throws env2 = None"
    and call2: "verifyMerchant env2 mid (advance d w1) = (out2, w2)"
  shows "(\<exists>r1 r2. out1 = Inr r1 \<and> out2 = Inr r2 \<and> success r2 = success r1)
         \<and> events_since (advance d w1) w2
             = [LogInfo (''Starting verification for merchant: '' @ m),
                RedisGet (''merchant_verification:'' @ m),
                LogInfo (''Found cached verification result for merchant '' @ m)]
         \<and> MathRandom \<notin> set (events_since (advance d w1) w2)
         \<and> cache w2 = cache w1"
proof -
  let ?key = "''merchant_verification:'' @ m"
  have "\<exists>v. v \<noteq> [] \<and> redis_lookup (advance d w1) ?key = Some v \<and> success (projr out1) = (v = ''true'')
          \<and> (\<exists>r1. out1 = Inr r1)"
  proof (cases "truthy (redis_lookup w ?key)")
    case True
    then obtain v where v: "redis_lookup w ?key = Some v" "v \<noteq> []"
      by (auto simp add: truthy_def split: option.splits)
    from verifyMerchant_hit [OF conv get1 v] call1
    have o1: "out1 = Inr \<lparr>success = (v = ''true''), message = None\<rparr>"
      and c1: "cache w1 = cache w" and n1: "now w1 = now w"
      by auto
    from live c1 n1 v(1) have "redis_lookup (advance d w1) ?key = Some v"
      by (auto simp add: redis_lookup_def advance_def split: option.splits if_splits)
    with v(2) o1 show ?thesis by simp
  next
    case False
    with first have set1: "redis_set_throws env1 = None" by simp
    let ?b = "random_draw env1 > 3 / 10"
    from verifyMerchant_miss [OF conv get1 False set1] call1
    have o1: "out1 = Inr \<lparr>success = ?b,
                 message = Some (if ?b then ''Verified successfully'' else ''Verification failed'')\<rparr>"
      and c1: "cache w1 ?key = Some (js_String_bool ?b, now w + 3600)"
      by auto
    from live c1 have "redis_lookup (advance d w1) ?key = Some (js_String_bool ?b)"
      by (auto simp add: redis_lookup_def advance_def split: if_splits)
    moreover have "js_String_bool ?b \<noteq> []" "?b = (js_String_bool ?b = ''true'')"
      by (simp_all add: js_String_bool_def)
    ultimately show ?thesis using o1 by auto
  qed
  then obtain v r1 where v: "v \<noteq> []" "redis_lookup (advance d w1) ?key = Some v"
    and s1: "success (projr out1) = (v = ''true'')" and o1: "out1 = Inr r1"
    by blast
  have "stack_depth w1 = stack_depth w"
    using verifyMerchant_stack_depth [of env1 mid w] call1 by simp
  with conv have conv2: "js_toString (stack_depth (advance d w1)) mid = Inr m"
    by (simp add: advance_def)
  from verifyMerchant_hit [OF conv2 get2 v(2) v(1)] call2
  have o2: "out2 = Inr \<lparr>success = (v = ''true''), message = None\<rparr>"
    and w2: "w2 = (advance d w1)\<lparr>trace := trace (advance d w1) @
                   [LogInfo (''Starting verification for merchant: '' @ m),
                    RedisGet ?key,
                    LogInfo (''Found cached verification result for merchant '' @ m)]\<rparr>"
    by auto
  have ev: "events_since (advance d w1) w2
             = [LogInfo (''Starting verification for merchant: '' @ m),
                RedisGet ?key,
                LogInfo (''Found cached verification result for merchant '' @ m)]"
    unfolding w2 by (rule events_since_append)
  have c2: "cache w2 = cache w1"
    unfolding w2 by (simp add: advance_def)
  from o1 o2 s1 have "\<exists>r1 r2. out1 = Inr r1 \<and> out2 = Inr r2 \<and> success r2 = success r1"
    by auto
  moreover have "MathRandom \<notin> set (events_since (advance d w1) w2)"
    unfolding ev by simp
  ultimately show ?thesis using ev c2 by blast
qed

theorem verifyMerchant_idempotent_within_ttl_witness:
  "js_toString (stack_depth fresh_world) (JStr ''M-001'') = Inr ''M-001''
   \<and> redis_get_throws (env_up (1 / 2)) = None \<and> redis_set_throws (env_up (1 / 2)) = None
   \<and> redis_lookup (advance 3599 (snd (verifyMerchant (env_up (1 / 2)) (JStr ''M-001'') fresh_world)))
         ''merchant_verification:M-001'' \<noteq> None
   \<and> redis_get_throws (env_up (1 / 10)) = None
   \<and> fst (verifyMerchant (env_up (1 / 2)) (JStr ''M-001'') fresh_world)
         = Inr \<lparr>success = True, message = Some ''Verified successfully''\<rparr>
   \<and> fst (verifyMerchant (env_up (1 / 10)) (JStr ''M-001'')
            (advance 3599 (snd (verifyMerchant (env_up (1 / 2)) (JStr ''M-001'') fresh_world))))
         = Inr \<lparr>success = True, message = None\<rparr>
   \<and> MathRandom \<notin> set (events_since
          (advance 3599 (snd (verifyMerchant (env_up (1 / 2)) (JStr ''M-001'') fresh_world)))
          (snd (verifyMerchant (env_up (1 / 10)) (JStr ''M-001'')
            (advance 3599 (snd (verifyMerchant (env_up (1 / 2)) (JStr ''M-001'') fresh_world))))))"
  using verifyMerchant_idempotent_within_ttl
    [of fresh_world "JStr ''M-001''" "''M-001''" "env_up (1 / 2)"
        "fst (verifyMerchant (env_up (1 / 2)) (JStr ''M-001'') fresh_world)"
        "snd (verifyMerchant (env_up (1 / 2)) (JStr ''M-001'') fresh_world)"
        3599 "env_up (1 / 10)"
        "fst (verifyMerchant (env_up (1 / 10)) (JStr ''M-001'')
            (advance 3599 (snd (verifyMerchant (env_up (1 / 2)) (JStr ''M-001'') fresh_world))))"
        "snd (verifyMerchant (env_up (1 / 10)) (JStr ''M-001'')
            (advance 3599 (snd (verifyMerchant (env_up (1 / 2)) (JStr ''M-001'') fresh_world))))"]
  by (simp add: verifyMerchant_def verifyMerchant_try_def redis_get_def redis_set_def
      logger_info_def Let_def advance_def redis_lookup_def truthy_def
      events_since_def emit_def js_String_bool_def env_up_def fresh_world_def)

text \<open>
  C2. On the cache-miss path (the lookup gives nothing truthy and both Redis commands
  return), the computed outcome is written under \<^verbatim>\<open>merchant_verification:{merchantId}\<close>
  as the string \<^verbatim>\<open>true\<close> or \<^verbatim>\<open>false\<close> with a TTL of 3600 seconds, whatever its
  polarity, and the same outcome is returned.
\<close>

theorem verifyMerchant_miss_writes_outcome:
  assumes "redis_get_throws env = None"
    and "redis_set_throws env = None"
    and "\<not> truthy (redis_lookup w (''merchant_verification:'' @ m))"
  shows "cache (snd (verifyMerchant env (JStr m) w)) (''merchant_verification:'' @ m)
           = Some (if random_draw env > 3 / 10 then ''true'' else ''false'', now w + 3600)
         \<and> RedisSet (''merchant_verification:'' @ m)
              (if random_draw env > 3 / 10 then ''true'' else ''false'') 3600
             \<in> set (events_since w (snd (verifyMerchant env (JStr m) w)))
         \<and> (\<exists>msg. fst (verifyMerchant env (JStr m) w)
               = Inr \<lparr>success = (random_draw env > 3 / 10), message = msg\<rparr>)"
  using assms
  by (simp add: verifyMerchant_def verifyMerchant_try_def redis_get_def redis_set_def
      logger_info_def events_since_def js_String_bool_def Let_def)

theorem verifyMerchant_miss_writes_outcome_witness:
  "redis_get_throws (env_up (1 / 10)) = None \<and> redis_set_throws (env_up (1 / 10)) = None
   \<and> \<not> truthy (redis_lookup fresh_world ''merchant_verification:M-001'')
   \<and> cache (snd (verifyMerchant (env_up (1 / 10)) (JStr ''M-001'') fresh_world))
       ''merchant_verification:M-001'' = Some (''false'', 3600)
   \<and> RedisSet ''merchant_verification:M-001'' ''false'' 3600
       \<in> set (events_since fresh_world
                (snd (verifyMerchant (env_up (1 / 10)) (JStr ''M-001'') fresh_world)))
   \<and> (\<exists>msg. fst (verifyMerchant (env_up (1 / 10)) (JStr ''M-001'') fresh_world)
         = Inr \<lparr>success = False, message = msg\<rparr>)"
  using verifyMerchant_miss_writes_outcome [of "env_up (1 / 10)" fresh_world "''M-001''"]
  by (simp add: env_up_def fresh_world_def redis_lookup_def truthy_def)

text \<open>
  C3. When a cache access of the call throws (the \<open>get\<close>, or the \<open>set\<close> after a miss),
  the service returns the failure result with the message
  \<^verbatim>\<open>Internal error during verification\<close> and the cache is what it was before the call.
  The mocked external computation, \<^verbatim>\<open>Math.random() > 0.3\<close>, cannot throw.
\<close>

theorem verifyMerchant_cache_failure_not_cached:
  assumes "js_toString (stack_depth w) mid = Inr m"
    and "redis_get_throws env = Some e
         \<or> (redis_get_throws env = None
            \<and> \<not> truthy (redis_lookup w (''merchant_verification:'' @ m))
            \<and> redis_set_throws env = Some e)"
  shows "fst (verifyMerchant env mid w)
           = Inr \<lparr>success = False, message = Some ''Internal error during verification''\<rparr>
         \<and> cache (snd (verifyMerchant env mid w)) = cache w"
  using cache_failure_caught(1,2) [OF assms] by simp

theorem verifyMerchant_cache_failure_not_cached_witness:
  "js_toString (stack_depth fresh_world) (JStr ''M-001'') = Inr ''M-001''
   \<and> redis_get_throws env_set_down = None
   \<and> \<not> truthy (redis_lookup fresh_world ''merchant_verification:M-001'')
   \<and> redis_set_throws env_set_down = Some (Error ''ECONNREFUSED'')
   \<and> fst (verifyMerchant env_set_down (JStr ''M-001'') fresh_world)
       = Inr \<lparr>success = False, message = Some ''Internal error during verification''\<rparr>
   \<and> cache (snd (verifyMerchant env_set_down (JStr ''M-001'') fresh_world)) = cache fresh_world"
  using verifyMerchant_cache_failure_not_cached
    [of fresh_world "JStr ''M-001''" "''M-001''" env_set_down "Error ''ECONNREFUSED''"]
  by (simp add: env_set_down_def fresh_world_def redis_lookup_def truthy_def)

text \<open>
  C7. When the entry of the merchant has expired (its expiry second is not after the
  current one) and the cache answers the read, the call takes the miss path: it draws a
  random number, and the outcome is decided by that draw (and by whether the write
  throws), not by the stale value.
\<close>

theorem verifyMerchant_recomputes_after_expiry:
  assumes "js_toString (stack_depth w) mid = Inr m"
    and "cache w (''merchant_verification:'' @ m) = Some (stale, expiry)"
    and "expiry \<le> now w"
    and "redis_get_throws env = None"
  shows "MathRandom \<in> set (events_since w (snd (verifyMerchant env mid w)))
         \<and> (\<exists>r. fst (verifyMerchant env mid w) = Inr r
                \<and> success r = (random_draw env > 3 / 10 \<and> redis_set_throws env = None))"
  using assms
  by (auto simp add: verifyMerchant_def verifyMerchant_try_def redis_get_def redis_set_def
      logger_info_def logger_error_def Let_def redis_lookup_def truthy_def
      events_since_def emit_def split: option.splits)

text \<open>
  The witness is the scenario of the claim: a first call caches \<^verbatim>\<open>true\<close> at second 0,
  3600 seconds pass, and the second call, whose draw is 0.1, returns \<^verbatim>\<open>false\<close>.
\<close>

theorem verifyMerchant_recomputes_after_expiry_witness:
  "js_toString (stack_depth fresh_world) (JStr ''M-001'') = Inr ''M-001''
   \<and> cache (advance 3600 (snd (verifyMerchant (env_up (1 / 2)) (JStr ''M-001'') fresh_world)))
        ''merchant_verification:M-001'' = Some (''true'', 3600)
   \<and> 3600 \<le> now (advance 3600 (snd (verifyMerchant (env_up (1 / 2)) (JStr ''M-001'') fresh_world)))
   \<and> redis_get_throws (env_up (1 / 10)) = None
   \<and> MathRandom \<in> set (events_since
        (advance 3600 (snd (verifyMerchant (env_up (1 / 2)) (JStr ''M-001'') fresh_world)))
        (snd (verifyMerchant (env_up (1 / 10)) (JStr ''M-001'')
           (advance 3600 (snd (verifyMerchant (env_up (1 / 2)) (JStr ''M-001'') fresh_world))))))
   \<and> (\<exists>r. fst (verifyMerchant (env_up (1 / 10)) (JStr ''M-001'')
           (advance 3600 (snd (verifyMerchant (env_up (1 / 2)) (JStr ''M-001'') fresh_world))))
          = Inr r \<and> success r = False)"
  using verifyMerchant_recomputes_after_expiry
    [of "advance 3600 (snd (verifyMerchant (env_up (1 / 2)) (JStr ''M-001'') fresh_world))"
        "JStr ''M-001''" "''M-001''" "''true''" 3600 "env_up (1 / 10)"]
  by (simp add: verifyMerchant_def verifyMerchant_try_def redis_get_def redis_set_def
      logger_info_def Let_def advance_def redis_lookup_def truthy_def
      emit_def js_String_bool_def env_up_def fresh_world_def)

section \<open>Properties of the worker\<close>




text \<open>
  C5, as the claim states it, fails: the verification call returns a result, the sink
  throws, and the job is failed with the exception of the sink.
\<close>

theorem worker_notification_outage_fails:
  "fst (verifyMerchant env_notify_down (JStr ''M-001'')
          (logger_info ''Processing verification for merchant: M-001'' fresh_world))
     = Inr \<lparr>success = True, message = Some ''Verified successfully''\<rparr>
   \<and> fst (externalVerificationWorker env_notify_down job_M001 fresh_world)
       = Failed (Error ''push service unavailable'')"
  by (simp add: externalVerificationWorker_def processor_def processor_try_def
      sendNotification_def verifyMerchant_def verifyMerchant_try_def redis_get_def redis_set_def
      logger_info_def logger_warn_def logger_error_def Let_def redis_lookup_def truthy_def
      js_String_bool_def env_notify_down_def fresh_world_def job_M001_def)

text \<open>
  C5, amended. For every job, an exception of the notification sink is logged by the
  \<^verbatim>\<open>catch\<close> of the processor and thrown again: the job is failed with that exception.
\<close>

theorem worker_notification_failure_fails_job:
  assumes "notify_throws env = Some e"
  shows "fst (externalVerificationWorker env j w) = Failed e
         \<and> LogError (''Error processing merchant '' @ merchantId (data j) @ '':'')
             \<in> set (events_since w (snd (externalVerificationWorker env j w)))"
proof -
  let ?m = "merchantId (data j)"
  let ?w1 = "logger_info (''Processing verification for merchant: '' @ ?m) w"
  obtain out w2 where v: "verifyMerchant env (JStr ?m) ?w1 = (out, w2)"
    by (cases "verifyMerchant env (JStr ?m) ?w1")
  obtain r where out: "out = Inr r"
    using verifyMerchant_convertible_returns [of ?w1 "JStr ?m" ?m env] v by auto
  obtain es where es: "trace w2 = trace ?w1 @ es"
    using verifyMerchant_trace [of env "JStr ?m" ?w1] v by auto
  from assms v out es show ?thesis
    by (auto simp add: externalVerificationWorker_def processor_def processor_try_def
        sendNotification_def logger_info_def logger_warn_def logger_error_def Let_def
        events_since_def)
qed

theorem worker_notification_failure_fails_job_witness:
  "notify_throws env_notify_down = Some (Error ''push service unavailable'')
   \<and> fst (externalVerificationWorker env_notify_down job_M001 fresh_world)
       = Failed (Error ''push service unavailable'')
   \<and> LogError ''Error processing merchant M-001:''
       \<in> set (events_since fresh_world
                (snd (externalVerificationWorker env_notify_down job_M001 fresh_world)))"
  using worker_notification_failure_fails_job
    [of env_notify_down "Error ''push service unavailable''" job_M001 fresh_world]
  by (simp add: env_notify_down_def job_M001_def)

text \<open>
  C6. A job that the worker completes with result \<open>r\<close>: \<open>r\<close> is the result that the
  verification service returned for the merchant of the job, and the notification sink
  has been called exactly once, for that merchant, with \<^verbatim>\<open>Verification successful!\<close>
  when \<open>success r\<close> and \<^verbatim>\<open>Verification failed!\<close> otherwise.
\<close>

theorem worker_completed_notifies_once:
  assumes "externalVerificationWorker env j w = (Completed r, w')"
  shows "fst (verifyMerchant env (JStr (merchantId (data j)))
                (logger_info (''Processing verification for merchant: '' @ merchantId (data j)) w))
           = Inr r
         \<and> filter is_Notification (events_since w w')
             = [Notification (merchantId (data j))
                  (if success r then ''Verification successful!'' else ''Verification failed!'')]"
proof -
  let ?m = "merchantId (data j)"
  let ?w1 = "logger_info (''Processing verification for merchant: '' @ ?m) w"
  obtain es where es: "trace (snd (verifyMerchant env (JStr ?m) ?w1)) = trace ?w1 @ es"
    "filter is_Notification es = []"
    using verifyMerchant_trace by blast
  obtain out w2 where v: "verifyMerchant env (JStr ?m) ?w1 = (out, w2)"
    by (cases "verifyMerchant env (JStr ?m) ?w1")
  from es v have t2:
    "trace w2 = trace w @ LogInfo (''Processing verification for merchant: '' @ ?m) # es"
    by (simp add: logger_info_def)
  from assms v have res: "out = Inr r"
    by (auto simp add: externalVerificationWorker_def processor_def processor_try_def
        sendNotification_def Let_def
        split: sum.splits option.splits if_splits)
  from assms v t2 es(2) have
    "filter is_Notification (events_since w w')
       = [Notification ?m (if success r then ''Verification successful!''
                           else ''Verification failed!'')]"
    by (auto simp add: externalVerificationWorker_def processor_def processor_try_def
        sendNotification_def logger_info_def logger_warn_def logger_error_def Let_def
        events_since_def
        split: sum.splits option.splits if_splits)
  with v res show ?thesis by simp
qed

text \<open>
  The witness takes both polarities: a fresh cache with a draw of 0.5, and the cache that
  holds \<^verbatim>\<open>false\<close> for \<^verbatim>\<open>M-002\<close>, where the same draw is never used.
\<close>

theorem worker_completed_notifies_once_witness:
  "externalVerificationWorker (env_up (1 / 2)) job_M001 fresh_world
     = (Completed \<lparr>success = True, message = Some ''Verified successfully''\<rparr>,
        snd (externalVerificationWorker (env_up (1 / 2)) job_M001 fresh_world))
   \<and> fst (verifyMerchant (env_up (1 / 2)) (JStr ''M-001'')
            (logger_info ''Processing verification for merchant: M-001'' fresh_world))
       = Inr \<lparr>success = True, message = Some ''Verified successfully''\<rparr>
   \<and> filter is_Notification
        (events_since fresh_world (snd (externalVerificationWorker (env_up (1 / 2)) job_M001 fresh_world)))
       = [Notification ''M-001'' ''Verification successful!'']
   \<and> externalVerificationWorker (env_up (1 / 2)) job_M002 seeded_world
       = (Completed \<lparr>success = False, message = None\<rparr>,
          snd (externalVerificationWorker (env_up (1 / 2)) job_M002 seeded_world))
   \<and> fst (verifyMerchant (env_up (1 / 2)) (JStr ''M-002'')
            (logger_info ''Processing verification for merchant: M-002'' seeded_world))
       = Inr \<lparr>success = False, message = None\<rparr>
   \<and> filter is_Notification
        (events_since seeded_world (snd (externalVerificationWorker (env_up (1 / 2)) job_M002 seeded_world)))
       = [Notification ''M-002'' ''Verification failed!'']"
  using worker_completed_notifies_once
    [of "env_up (1 / 2)" job_M001 fresh_world
        "\<lparr>success = True, message = Some ''Verified successfully''\<rparr>"
        "snd (externalVerificationWorker (env_up (1 / 2)) job_M001 fresh_world)"]
    worker_completed_notifies_once
    [of "env_up (1 / 2)" job_M002 seeded_world
        "\<lparr>success = False, message = None\<rparr>"
        "snd (externalVerificationWorker (env_up (1 / 2)) job_M002 seeded_world)"]
  by (simp add: externalVerificationWorker_def processor_def processor_try_def
      sendNotification_def verifyMerchant_def verifyMerchant_try_def redis_get_def redis_set_def
      logger_info_def logger_warn_def Let_def redis_lookup_def truthy_def
      js_String_bool_def env_up_def fresh_world_def seeded_world_def job_M001_def job_M002_def)

section \<open>Properties of the routes\<close>

text \<open>
  C8. Both routes call the service on the whole request body. On the body that the test
  script of the repository posts, which carries \<^verbatim>\<open>merchantId: 'M12345'\<close>, the key read
  and written is \<^verbatim>\<open>merchant_verification:[object Object]\<close>, and nothing is stored under
  \<^verbatim>\<open>merchant_verification:M12345\<close>.
\<close>

theorem routes_pass_whole_body:
  "js_toString (stack_depth fresh_world) test_body = Inr ''[object Object]''
   \<and> events_since fresh_world
        (snd (merchant_submit (env_up (1 / 2)) \<lparr>body = test_body\<rparr> fresh_world))
       = [LogInfo ''Starting verification for merchant: [object Object]'',
          RedisGet ''merchant_verification:[object Object]'',
          MathRandom,
          LogInfo ''Verification result for [object Object]: true'',
          RedisSet ''merchant_verification:[object Object]'' ''true'' 3600]
   \<and> cache (snd (merchant_submit (env_up (1 / 2)) \<lparr>body = test_body\<rparr> fresh_world))
        ''merchant_verification:[object Object]'' = Some (''true'', 3600)
   \<and> cache (snd (merchant_submit (env_up (1 / 2)) \<lparr>body = test_body\<rparr> fresh_world))
        ''merchant_verification:M12345'' = None
   \<and> snd (webhook_external_verification (env_up (1 / 2)) \<lparr>body = test_body\<rparr> fresh_world)
       = snd (merchant_submit (env_up (1 / 2)) \<lparr>body = test_body\<rparr> fresh_world)"
  by (simp add: merchant_submit_def webhook_external_verification_def
      verifyMerchant_def verifyMerchant_try_def redis_get_def redis_set_def
      logger_info_def Let_def redis_lookup_def truthy_def events_since_def
      js_String_bool_def env_up_def fresh_world_def test_body_def)

text \<open>
  C9. \<^verbatim>\<open>POST /merchant/submit\<close>: when the verification call returns \<open>result\<close>, the
  response is 200 with the body \<^verbatim>\<open>{ success: true, data: result }\<close>; when it throws, the
  response is 500 with \<^verbatim>\<open>{ success: false, message: 'Server Error' }\<close>, a body in which
  the exception does not occur.
\<close>

theorem merchant_submit_responses:
  "(fst (verifyMerchant env (body req) w) = Inr result \<longrightarrow>
      fst (merchant_submit env req w)
        = \<lparr>status = 200,
           sent = Json (JObj [(''success'', JBool True), (''data'', result_json result)])\<rparr>)
   \<and> (fst (verifyMerchant env (body req) w) = Inl err \<longrightarrow>
      fst (merchant_submit env req w)
        = \<lparr>status = 500,
           sent = Json (JObj [(''success'', JBool False), (''message'', JStr ''Server Error'')])\<rparr>)"
  by (auto simp add: merchant_submit_def split: prod.splits sum.splits)

text \<open>
  The witness takes both branches: the body of the test script, and a body on which the
  service throws.
\<close>

theorem merchant_submit_responses_witness:
  "fst (verifyMerchant (env_up (1 / 2)) (body \<lparr>body = test_body\<rparr>) fresh_world)
     = Inr \<lparr>success = True, message = Some ''Verified successfully''\<rparr>
   \<and> fst (merchant_submit (env_up (1 / 2)) \<lparr>body = test_body\<rparr> fresh_world)
       = \<lparr>status = 200,
          sent = Json (JObj [(''success'', JBool True),
                   (''data'', JObj [(''success'', JBool True),
                                    (''message'', JStr ''Verified successfully'')])])\<rparr>
   \<and> fst (verifyMerchant (env_up (1 / 2)) (body \<lparr>body = odd_body\<rparr>) fresh_world)
       = Inl (TypeError ''Cannot convert object to primitive value'')
   \<and> fst (merchant_submit (env_up (1 / 2)) \<lparr>body = odd_body\<rparr> fresh_world)
       = \<lparr>status = 500,
          sent = Json (JObj [(''success'', JBool False), (''message'', JStr ''Server Error'')])\<rparr>"
  using merchant_submit_responses
    [of "env_up (1 / 2)" "\<lparr>body = test_body\<rparr>" fresh_world
        "\<lparr>success = True, message = Some ''Verified successfully''\<rparr>"
        "TypeError ''Cannot convert object to primitive value''"]
    merchant_submit_responses
    [of "env_up (1 / 2)" "\<lparr>body = odd_body\<rparr>" fresh_world
        "\<lparr>success = True, message = Some ''Verified successfully''\<rparr>"
        "TypeError ''Cannot convert object to primitive value''"]
  by (simp add: verifyMerchant_def verifyMerchant_try_def redis_get_def redis_set_def
      logger_info_def Let_def redis_lookup_def truthy_def result_json_def
      js_String_bool_def env_up_def fresh_world_def test_body_def odd_body_def)

text \<open>
  C10, as the claim states it, fails: on a JSON body with a member named
  \<^verbatim>\<open>toString\<close> the first template literal throws a TypeError, the one in the
  \<^verbatim>\<open>catch\<close> throws it again, the promise is rejected and the webhook answers 500.
\<close>

theorem webhook_rejects_odd_body:
  "fst (verifyMerchant (env_up (1 / 2)) odd_body fresh_world)
     = Inl (TypeError ''Cannot convert object to primitive value'')
   \<and> fst (webhook_external_verification (env_up (1 / 2)) \<lparr>body = odd_body\<rparr> fresh_world)
       = \<lparr>status = 500, sent = Text ''Webhook processing failed''\<rparr>"
  by (simp add: webhook_external_verification_def verifyMerchant_def verifyMerchant_try_def
      odd_body_def)

text \<open>
  C10, amended. On every input whose conversion to a string does not throw (every
  string, and every object without a member named \<^verbatim>\<open>toString\<close>, among them),
  whatever the cache does, the service returns a result; on such a body the webhook
  answers 200 with \<^verbatim>\<open>OK\<close> and the submission endpoint answers 200.
\<close>

theorem verifyMerchant_total_on_convertible:
  assumes "js_toString (stack_depth w) mid = Inr m"
  shows "(\<exists>r. fst (verifyMerchant env mid w) = Inr r)
         \<and> fst (webhook_external_verification env \<lparr>body = mid\<rparr> w)
             = \<lparr>status = 200, sent = Text ''OK''\<rparr>
         \<and> status (fst (merchant_submit env \<lparr>body = mid\<rparr> w)) = 200"
proof -
  obtain r where "fst (verifyMerchant env mid w) = Inr r"
    using verifyMerchant_convertible_returns [OF assms] by blast
  then show ?thesis
    by (auto simp add: webhook_external_verification_def merchant_submit_def split: prod.splits)
qed

text \<open>
  The witness is the object body of the test script, posted while the cache is
  unreachable.
\<close>

theorem verifyMerchant_total_on_convertible_witness:
  "js_toString (stack_depth fresh_world) test_body = Inr ''[object Object]''
   \<and> fst (verifyMerchant env_get_down test_body fresh_world)
       = Inr \<lparr>success = False, message = Some ''Internal error during verification''\<rparr>
   \<and> fst (webhook_external_verification env_get_down \<lparr>body = test_body\<rparr> fresh_world)
       = \<lparr>status = 200, sent = Text ''OK''\<rparr>
   \<and> status (fst (merchant_submit env_get_down \<lparr>body = test_body\<rparr> fresh_world)) = 200"
  using verifyMerchant_total_on_convertible [of fresh_world test_body "''[object Object]''" env_get_down]
  by (simp add: verifyMerchant_def verifyMerchant_try_def redis_get_def
      logger_info_def logger_error_def Let_def env_get_down_def fresh_world_def test_body_def)

end
